theory Spec2Isabelle
  imports Main "HOL-Library.Word"
begin

unbundle bit_operations_syntax

section \<open>Compile-time data model of the IR generator\<close>

text \<open>
  \<^verbatim>\<open>WitnessSizedTypeInfo\<close> (lib/IRGen/NonFixedTypeInfo.h) is a code generator: each
  of its operations appends instructions to the function under construction
  (\<^verbatim>\<open>IRGenFunction\<close>) and hands back the SSA values that will hold the results when
  the generated code runs. The embedding keeps both levels apart: the operations
  of the header are functions on an explicit \<^verbatim>\<open>IRGenFunction\<close> state, and the
  instructions they emit are data with an execution semantics of their own.
\<close>

text \<open>\<^verbatim>\<open>CanType\<close>: the opaque handle of one fully instantiated type.\<close>

datatype CanType = CanType nat

text \<open>\<^verbatim>\<open>llvm::Type\<close>, as far as the header builds types.\<close>

datatype llvm_Type =
    Int8ArrayTy nat
  | OpaqueTy string
  | PointerTo llvm_Type

text \<open>\<^verbatim>\<open>llvm::Value *\<close>: an SSA value of the generated function.\<close>

datatype llvm_Value = SSA nat

text \<open>\<^verbatim>\<open>Address\<close>: a pointer value together with its known alignment.\<close>

record Address =
  getAddress :: llvm_Value
  getAlignment :: nat

text \<open>\<^verbatim>\<open>OwnedAddress\<close>: payload address and owning box.\<close>

record OwnedAddress =
  getOwnedAddr :: Address
  getOwner :: llvm_Value

text \<open>\<^verbatim>\<open>ContainedAddress\<close>: the buffer and the address of the object held in it.\<close>

record ContainedAddress =
  getContainer :: Address
  getContained :: Address

text \<open>
  The value witnesses the header loads with \<^verbatim>\<open>emitLoadOfSize\<close>,
  \<^verbatim>\<open>emitLoadOfAlignmentMask\<close>, \<^verbatim>\<open>emitLoadOfStride\<close> and \<^verbatim>\<open>emitLoadOfIsInline\<close>.
\<close>

datatype WitnessField = SizeWitness | AlignmentMaskWitness | StrideWitness | IsInlineWitness

text \<open>The instructions the header emits, each with the value (or values) it defines.\<close>

datatype Instruction =
    Alloca llvm_Value llvm_Type nat string
  | BitCast llvm_Value llvm_Value llvm_Type
  | TypeMetadataRef llvm_Value CanType
  | ValueWitnessTableRef llvm_Value llvm_Value
  | LoadWitness llvm_Value WitnessField llvm_Value
  | AllocBoxCall llvm_Value llvm_Value llvm_Value
  | AllocateBufferCall llvm_Value llvm_Value llvm_Value
  | DeallocateBufferCall llvm_Value llvm_Value

text \<open>
  \<^verbatim>\<open>IRGenModule\<close>. Its declaration lies outside the header; the header reads two
  things from it, \<^verbatim>\<open>IGM.getFixedBufferTy()\<close> and \<^verbatim>\<open>getFixedBufferAlignment(IGM)\<close>,
  and both are functions of the module alone. The capacity in bytes and the
  alignment of the fixed buffer are taken as parameters of the module.
\<close>

record IRGenModule =
  FixedBufferSize :: nat
  FixedBufferAlignment :: nat

text \<open>
  Modelled from the spec: \<^verbatim>\<open>IRGenModule::getFixedBufferTy\<close> is missing; the fixed buffer
  is a region of bytes whose size is the module's constant.
\<close>

definition getFixedBufferTy :: "IRGenModule \<Rightarrow> llvm_Type" where
  "getFixedBufferTy IGM = Int8ArrayTy (FixedBufferSize IGM)"

text \<open>
  Modelled from the spec: \<^verbatim>\<open>getFixedBufferAlignment\<close> (GenOpaque.h) is missing; the
  alignment of the fixed buffer is the module's constant.
\<close>

definition getFixedBufferAlignment :: "IRGenModule \<Rightarrow> nat" where
  "getFixedBufferAlignment IGM = FixedBufferAlignment IGM"

text \<open>
  \<^verbatim>\<open>IRGenFunction\<close>: the module, the instructions emitted so far (the insertion
  point of \<^verbatim>\<open>IGF.Builder\<close> is the end of the list) and the next unused value number.
\<close>

record IRGenFunction =
  IGM :: IRGenModule
  Builder :: "Instruction list"
  NextValue :: nat

text \<open>
  The \<^verbatim>\<open>TypeInfo\<close> base object (declared outside the header), as the
  constructor \<^verbatim>\<open>WitnessSizedTypeInfo(type, align, pod, bt)\<close> fills it: the storage
  type, its alignment, the two flags and the kind \<^verbatim>\<open>STIK_None\<close>.
\<close>

datatype SpecialTypeInfoKind = STIK_None | STIK_Fixed

record TypeInfo =
  StorageType :: llvm_Type
  StorageAlignment :: nat
  IsPOD :: bool
  IsBitwiseTakable :: bool
  SpecialKind :: SpecialTypeInfoKind

definition WitnessSizedTypeInfo :: "llvm_Type \<Rightarrow> nat \<Rightarrow> bool \<Rightarrow> bool \<Rightarrow> TypeInfo" where
  "WitnessSizedTypeInfo type align pod bt =
     \<lparr>StorageType = type, StorageAlignment = align, IsPOD = pod, IsBitwiseTakable = bt,
      SpecialKind = STIK_None\<rparr>"

text \<open>
  Modelled from the spec: \<^verbatim>\<open>TypeInfo::getStorageType\<close> is missing; it is the storage
  representation for T the type info was constructed with.
\<close>

definition getStorageType :: "TypeInfo \<Rightarrow> llvm_Type" where
  "getStorageType this = StorageType this"

text \<open>
  Modelled from the spec: \<^verbatim>\<open>llvm::Type::getPointerTo\<close> is LLVM's and missing here; it is
  the type of pointers to the given type.
\<close>

definition getPointerTo :: "llvm_Type \<Rightarrow> llvm_Type" where
  "getPointerTo ty = PointerTo ty"

text \<open>
  Modelled from the spec: \<^verbatim>\<open>TypeInfo::getAddressForPointer\<close> is missing; it is the
  pointer as an address of this type, with the storage alignment given to the
  constructor.
\<close>

definition getAddressForPointer :: "TypeInfo \<Rightarrow> llvm_Value \<Rightarrow> Address" where
  "getAddressForPointer this ptr = \<lparr>getAddress = ptr, getAlignment = StorageAlignment this\<rparr>"

section \<open>Emission helpers\<close>

text \<open>
  The helpers the header calls live in \<^verbatim>\<open>IRGenFunction\<close>, GenOpaque.h and LLVM's
  \<^verbatim>\<open>IRBuilder\<close>, none of which the header defines. Each is taken to append the one
  operation its call site asks for and to return the value that operation defines.
\<close>

text \<open>Append one instruction that defines a fresh value.\<close>

definition emit :: "IRGenFunction \<Rightarrow> (llvm_Value \<Rightarrow> Instruction) \<Rightarrow> llvm_Value \<times> IRGenFunction" where
  "emit IGF mk =
     (let v = SSA (NextValue IGF)
      in (v, IGF\<lparr>Builder := Builder IGF @ [mk v], NextValue := Suc (NextValue IGF)\<rparr>))"

text \<open>
  Modelled from the spec: \<^verbatim>\<open>IGF.Builder.CreateBitCast\<close> is missing; the payload address
  is reinterpreted as a pointer of another type.
\<close>

definition CreateBitCast :: "IRGenFunction \<Rightarrow> llvm_Value \<Rightarrow> llvm_Type \<Rightarrow> llvm_Value \<times> IRGenFunction" where
  "CreateBitCast IGF v ty = emit IGF (\<lambda>r. BitCast r v ty)"

text \<open>
  Modelled from the spec: \<^verbatim>\<open>IGF.createAlloca\<close> is missing; it makes the stack-resident
  region of the given type and alignment and returns its address.
\<close>

definition createAlloca :: "IRGenFunction \<Rightarrow> llvm_Type \<Rightarrow> nat \<Rightarrow> string \<Rightarrow> Address \<times> IRGenFunction" where
  "createAlloca IGF ty align name =
     (let (v, IGF1) = emit IGF (\<lambda>r. Alloca r ty align name)
      in (\<lparr>getAddress = v, getAlignment = align\<rparr>, IGF1))"

text \<open>
  Modelled from the spec: \<^verbatim>\<open>IGF.emitTypeMetadataRef\<close> is missing; it yields the run-time
  handle that identifies the concrete type T.
\<close>

definition emitTypeMetadataRef :: "IRGenFunction \<Rightarrow> CanType \<Rightarrow> llvm_Value \<times> IRGenFunction" where
  "emitTypeMetadataRef IGF T = emit IGF (\<lambda>r. TypeMetadataRef r T)"

text \<open>
  Modelled from the spec: \<^verbatim>\<open>IGF.emitValueWitnessTableRefForMetadata\<close> is missing; it
  fetches the descriptor reachable from the handle.
\<close>

definition emitValueWitnessTableRefForMetadata ::
    "IRGenFunction \<Rightarrow> llvm_Value \<Rightarrow> llvm_Value \<times> IRGenFunction" where
  "emitValueWitnessTableRefForMetadata IGF metadata = emit IGF (\<lambda>r. ValueWitnessTableRef r metadata)"

text \<open>
  Modelled from the spec: \<^verbatim>\<open>emitLoadOfSize\<close> (GenOpaque.h) is missing; it loads the
  \<open>size\<close> field of the descriptor.
\<close>

definition emitLoadOfSize :: "IRGenFunction \<Rightarrow> llvm_Value \<Rightarrow> llvm_Value \<times> IRGenFunction" where
  "emitLoadOfSize IGF wtable = emit IGF (\<lambda>r. LoadWitness r SizeWitness wtable)"

text \<open>
  Modelled from the spec: \<^verbatim>\<open>emitLoadOfAlignmentMask\<close> (GenOpaque.h) is missing; it loads
  the \<open>alignmentMask\<close> field of the descriptor.
\<close>

definition emitLoadOfAlignmentMask :: "IRGenFunction \<Rightarrow> llvm_Value \<Rightarrow> llvm_Value \<times> IRGenFunction" where
  "emitLoadOfAlignmentMask IGF wtable = emit IGF (\<lambda>r. LoadWitness r AlignmentMaskWitness wtable)"

text \<open>
  Modelled from the spec: \<^verbatim>\<open>emitLoadOfStride\<close> (GenOpaque.h) is missing; it loads the
  \<open>stride\<close> field of the descriptor.
\<close>

definition emitLoadOfStride :: "IRGenFunction \<Rightarrow> llvm_Value \<Rightarrow> llvm_Value \<times> IRGenFunction" where
  "emitLoadOfStride IGF wtable = emit IGF (\<lambda>r. LoadWitness r StrideWitness wtable)"

text \<open>
  Modelled from the spec: \<^verbatim>\<open>emitLoadOfIsInline\<close> (GenOpaque.h) is missing; it loads the
  \<open>isStoredInline\<close> flag of the descriptor.
\<close>

definition emitLoadOfIsInline :: "IRGenFunction \<Rightarrow> llvm_Value \<Rightarrow> llvm_Value \<times> IRGenFunction" where
  "emitLoadOfIsInline IGF wtable = emit IGF (\<lambda>r. LoadWitness r IsInlineWitness wtable)"

text \<open>
  Modelled from the spec: \<^verbatim>\<open>IGF.emitAllocBoxCall\<close> is missing; it calls the
  box-allocation entry point on the metadata and sets both of its reference
  arguments, the box and the payload address.
\<close>

definition emitAllocBoxCall ::
    "IRGenFunction \<Rightarrow> llvm_Value \<Rightarrow> llvm_Value \<times> llvm_Value \<times> IRGenFunction" where
  "emitAllocBoxCall IGF metadata =
     (let box = SSA (NextValue IGF); address = SSA (Suc (NextValue IGF))
      in (box, address,
          IGF\<lparr>Builder := Builder IGF @ [AllocBoxCall box address metadata],
              NextValue := Suc (Suc (NextValue IGF))\<rparr>))"

text \<open>
  Modelled from the spec: \<^verbatim>\<open>emitAllocateBufferCall\<close> (GenOpaque.h) is missing; it calls
  the buffer-allocation entry point with the metadata and the address of the region
  and returns the payload address.
\<close>

definition emitAllocateBufferCall ::
    "IRGenFunction \<Rightarrow> llvm_Value \<Rightarrow> Address \<Rightarrow> llvm_Value \<times> IRGenFunction" where
  "emitAllocateBufferCall IGF metadata buffer =
     emit IGF (\<lambda>r. AllocateBufferCall r metadata (getAddress buffer))"

text \<open>
  Modelled from the spec: \<^verbatim>\<open>emitDeallocateBufferCall\<close> (GenOpaque.h) is missing; it calls
  the buffer-deallocation entry point with the metadata and the address of the
  region. The call defines no value.
\<close>

definition emitDeallocateBufferCall :: "IRGenFunction \<Rightarrow> llvm_Value \<Rightarrow> Address \<Rightarrow> IRGenFunction" where
  "emitDeallocateBufferCall IGF metadata buffer =
     IGF\<lparr>Builder := Builder IGF @ [DeallocateBufferCall metadata (getAddress buffer)]\<rparr>"

section \<open>WitnessSizedTypeInfo\<close>

text \<open>
  Modelled from the spec: \<^verbatim>\<open>llvm_unreachable\<close> is LLVM's macro and missing here.
  Reaching it is a programming-contract violation, fatal and not recoverable: the
  process ends with the message and the operation has no result. Fatal paths are
  values of a sum type.
\<close>

datatype FatalError = Unreachable string

definition llvm_unreachable :: "string \<Rightarrow> FatalError + 'a" where
  "llvm_unreachable msg = Inl (Unreachable msg)"

definition getAsBitCastAddress ::
    "TypeInfo \<Rightarrow> IRGenFunction \<Rightarrow> llvm_Value \<Rightarrow> Address \<times> IRGenFunction" where
  "getAsBitCastAddress this IGF addr =
     (let (addr', IGF1) = CreateBitCast IGF addr (getPointerTo (getStorageType this))
      in (getAddressForPointer this addr', IGF1))"

definition isFixed :: bool where
  "isFixed = False"

definition allocateBox ::
    "TypeInfo \<Rightarrow> IRGenFunction \<Rightarrow> CanType \<Rightarrow> string \<Rightarrow> OwnedAddress \<times> IRGenFunction" where
  "allocateBox this IGF T name =
     (let (metadata, IGF1) = emitTypeMetadataRef IGF T;
          (box, address, IGF2) = emitAllocBoxCall IGF1 metadata;
          (addr, IGF3) = getAsBitCastAddress this IGF2 address
      in (\<lparr>getOwnedAddr = addr, getOwner = box\<rparr>, IGF3))"

definition allocateStack ::
    "TypeInfo \<Rightarrow> IRGenFunction \<Rightarrow> CanType \<Rightarrow> string \<Rightarrow> ContainedAddress \<times> IRGenFunction" where
  "allocateStack this IGF T name =
     (let (buffer, IGF1) = createAlloca IGF (getFixedBufferTy (IGM IGF))
                             (getFixedBufferAlignment (IGM IGF)) name;
          (metadata, IGF2) = emitTypeMetadataRef IGF1 T;
          (address, IGF3) = emitAllocateBufferCall IGF2 metadata buffer;
          (addr, IGF4) = getAsBitCastAddress this IGF3 address
      in (\<lparr>getContainer = buffer, getContained = addr\<rparr>, IGF4))"

definition deallocateStack :: "TypeInfo \<Rightarrow> IRGenFunction \<Rightarrow> Address \<Rightarrow> CanType \<Rightarrow> IRGenFunction" where
  "deallocateStack this IGF buffer T =
     (let (metadata, IGF1) = emitTypeMetadataRef IGF T
      in emitDeallocateBufferCall IGF1 metadata buffer)"

definition getValueWitnessTable ::
    "TypeInfo \<Rightarrow> IRGenFunction \<Rightarrow> CanType \<Rightarrow> llvm_Value \<times> IRGenFunction" where
  "getValueWitnessTable this IGF T =
     (let (metadata, IGF1) = emitTypeMetadataRef IGF T
      in emitValueWitnessTableRefForMetadata IGF1 metadata)"

definition getSizeAndAlignmentMask ::
    "TypeInfo \<Rightarrow> IRGenFunction \<Rightarrow> CanType \<Rightarrow> (llvm_Value \<times> llvm_Value) \<times> IRGenFunction" where
  "getSizeAndAlignmentMask this IGF T =
     (let (wtable, IGF1) = getValueWitnessTable this IGF T;
          (sz, IGF2) = emitLoadOfSize IGF1 wtable;
          (align, IGF3) = emitLoadOfAlignmentMask IGF2 wtable
      in ((sz, align), IGF3))"

definition getSizeAndAlignmentMaskAndStride ::
    "TypeInfo \<Rightarrow> IRGenFunction \<Rightarrow> CanType \<Rightarrow> (llvm_Value \<times> llvm_Value \<times> llvm_Value) \<times> IRGenFunction" where
  "getSizeAndAlignmentMaskAndStride this IGF T =
     (let (wtable, IGF1) = getValueWitnessTable this IGF T;
          (sz, IGF2) = emitLoadOfSize IGF1 wtable;
          (align, IGF3) = emitLoadOfAlignmentMask IGF2 wtable;
          (strd, IGF4) = emitLoadOfStride IGF3 wtable
      in ((sz, align, strd), IGF4))"

definition getSize :: "TypeInfo \<Rightarrow> IRGenFunction \<Rightarrow> CanType \<Rightarrow> llvm_Value \<times> IRGenFunction" where
  "getSize this IGF T =
     (let (wtable, IGF1) = getValueWitnessTable this IGF T
      in emitLoadOfSize IGF1 wtable)"

definition getAlignmentMask :: "TypeInfo \<Rightarrow> IRGenFunction \<Rightarrow> CanType \<Rightarrow> llvm_Value \<times> IRGenFunction" where
  "getAlignmentMask this IGF T =
     (let (wtable, IGF1) = getValueWitnessTable this IGF T
      in emitLoadOfAlignmentMask IGF1 wtable)"

definition getStride :: "TypeInfo \<Rightarrow> IRGenFunction \<Rightarrow> CanType \<Rightarrow> llvm_Value \<times> IRGenFunction" where
  "getStride this IGF T =
     (let (wtable, IGF1) = getValueWitnessTable this IGF T
      in emitLoadOfStride IGF1 wtable)"

definition isDynamicallyPackedInline ::
    "TypeInfo \<Rightarrow> IRGenFunction \<Rightarrow> CanType \<Rightarrow> llvm_Value \<times> IRGenFunction" where
  "isDynamicallyPackedInline this IGF T =
     (let (wtable, IGF1) = getValueWitnessTable this IGF T
      in emitLoadOfIsInline IGF1 wtable)"

definition mayHaveExtraInhabitants :: "TypeInfo \<Rightarrow> IRGenModule \<Rightarrow> bool" where
  "mayHaveExtraInhabitants this M = False"

definition getExtraInhabitantIndex ::
    "TypeInfo \<Rightarrow> IRGenFunction \<Rightarrow> Address \<Rightarrow> CanType \<Rightarrow> FatalError + (llvm_Value \<times> IRGenFunction)" where
  "getExtraInhabitantIndex this IGF src T =
     llvm_unreachable ''dynamic extra inhabitants not supported''"

definition storeExtraInhabitant ::
    "TypeInfo \<Rightarrow> IRGenFunction \<Rightarrow> llvm_Value \<Rightarrow> Address \<Rightarrow> CanType \<Rightarrow> FatalError + IRGenFunction" where
  "storeExtraInhabitant this IGF index dest T =
     llvm_unreachable ''dynamic extra inhabitants not supported''"

text \<open>\<^verbatim>\<open>llvm::Constant *\<close> results: \<^verbatim>\<open>nullptr\<close> is \<open>None\<close>.\<close>

definition getStaticSize :: "TypeInfo \<Rightarrow> IRGenModule \<Rightarrow> nat option" where
  "getStaticSize this M = None"

definition getStaticAlignmentMask :: "TypeInfo \<Rightarrow> IRGenModule \<Rightarrow> nat option" where
  "getStaticAlignmentMask this M = None"

definition getStaticStride :: "TypeInfo \<Rightarrow> IRGenModule \<Rightarrow> nat option" where
  "getStaticStride this M = None"

section \<open>Run-time model\<close>

text \<open>
  The header only emits code; what that code does when it runs is decided by the
  runtime that furnishes the Type Descriptor and its entry points, and by the meaning
  of the emitted instructions. Neither is defined in the header, so this section
  follows the spec: its data model for the descriptor, its component design for the
  entry points. The constants of the fixed buffer are those of the module the code
  was generated for.
\<close>

text \<open>
  Modelled from the spec: the Type Descriptor record of the runtime is missing. It has
  the fields of the data model: the unsigned words \<open>size\<close>, \<open>alignmentMask\<close> and
  \<open>stride\<close> and the flag \<open>isStoredInline\<close>. Words are 64 bits wide.
\<close>

record TypeDescriptor =
  sizeField :: "64 word"
  alignmentMaskField :: "64 word"
  strideField :: "64 word"
  isStoredInline :: bool

text \<open>
  Modelled from the spec: the address space of the generated program is missing.
  Memory is a collection of disjoint blocks, fixed-buffer regions on the stack and
  cells of the heap; an address is a block and an offset into it. A run-time value is
  an address, a word, a flag, the handle of a type, its descriptor, or a box (the
  owner of a heap cell).
\<close>

datatype Block = StackBlock nat | HeapBlock nat

datatype RuntimeValue =
    PointerVal Block nat
  | WordVal "64 word"
  | BoolVal bool
  | MetadataVal CanType
  | WitnessTableVal CanType
  | BoxVal nat

record StackRegion =
  regionSize :: nat
  regionAlignment :: nat

record HeapCell =
  cellSize :: "64 word"
  cellAlignmentMask :: "64 word"
  cellLive :: bool

text \<open>
  Modelled from the spec: the state generated code runs in is missing. It holds the
  descriptors of the runtime (never written by generated code), the values of the SSA
  registers, the stack regions and heap cells made so far (a block's number is its
  index), and the pointers stored in memory.
\<close>

record Runtime =
  Descriptors :: "CanType \<Rightarrow> TypeDescriptor"
  Registers :: "llvm_Value \<rightharpoonup> RuntimeValue"
  Stack :: "StackRegion list"
  Heap :: "HeapCell list"
  Memory :: "Block \<times> nat \<rightharpoonup> RuntimeValue"

text \<open>What can go wrong when generated code runs.\<close>

datatype RuntimeError =
    UndefinedValue
  | NotMetadata
  | NotWitnessTable
  | NotAFixedBuffer
  | UnsizedAlloca
  | InvalidFree

text \<open>The bytes a stack allocation of a type takes; an opaque type has no size.\<close>

fun sizeOfType :: "llvm_Type \<Rightarrow> nat option" where
  "sizeOfType (Int8ArrayTy n) = Some n"
| "sizeOfType (PointerTo ty) = Some 8"
| "sizeOfType (OpaqueTy name) = None"

definition setRegister :: "llvm_Value \<Rightarrow> RuntimeValue \<Rightarrow> Runtime \<Rightarrow> Runtime" where
  "setRegister v x rt = rt\<lparr>Registers := (Registers rt)(v \<mapsto> x)\<rparr>"

text \<open>The operand of an instruction, read as the kind of value the instruction needs.\<close>

fun asMetadata :: "RuntimeValue option \<Rightarrow> RuntimeError + CanType" where
  "asMetadata None = Inl UndefinedValue"
| "asMetadata (Some (MetadataVal T)) = Inr T"
| "asMetadata (Some x) = Inl NotMetadata"

fun asWitnessTable :: "RuntimeValue option \<Rightarrow> RuntimeError + CanType" where
  "asWitnessTable None = Inl UndefinedValue"
| "asWitnessTable (Some (WitnessTableVal T)) = Inr T"
| "asWitnessTable (Some x) = Inl NotWitnessTable"

text \<open>
  Modelled from the spec: what a buffer entry point is handed must be a fixed buffer,
  the start of a stack region that has at least the capacity and the alignment of
  the fixed buffer.
\<close>

fun asFixedBuffer :: "IRGenModule \<Rightarrow> Runtime \<Rightarrow> RuntimeValue option \<Rightarrow> RuntimeError + nat" where
  "asFixedBuffer M rt None = Inl UndefinedValue"
| "asFixedBuffer M rt (Some (PointerVal (StackBlock b) off)) =
     (if off = 0 \<and> b < length (Stack rt)
         \<and> FixedBufferSize M \<le> regionSize (Stack rt ! b)
         \<and> FixedBufferAlignment M dvd regionAlignment (Stack rt ! b)
      then Inr b else Inl NotAFixedBuffer)"
| "asFixedBuffer M rt (Some x) = Inl NotAFixedBuffer"

text \<open>Modelled from the spec: the load of one field of a descriptor.\<close>

fun witnessValue :: "WitnessField \<Rightarrow> TypeDescriptor \<Rightarrow> RuntimeValue" where
  "witnessValue SizeWitness d = WordVal (sizeField d)"
| "witnessValue AlignmentMaskWitness d = WordVal (alignmentMaskField d)"
| "witnessValue StrideWitness d = WordVal (strideField d)"
| "witnessValue IsInlineWitness d = BoolVal (isStoredInline d)"

text \<open>
  Modelled from the spec: the heap allocator is missing. A new heap cell has the size
  and alignment of the descriptor and is live until it is freed.
\<close>

definition allocCell :: "TypeDescriptor \<Rightarrow> Runtime \<Rightarrow> nat \<times> Runtime" where
  "allocCell d rt =
     (length (Heap rt),
      rt\<lparr>Heap := Heap rt @ [\<lparr>cellSize = sizeField d, cellAlignmentMask = alignmentMaskField d,
                              cellLive = True\<rparr>]\<rparr>)"

text \<open>
  Modelled from the spec: the box-allocation entry point is missing. It looks the size
  and alignment up in the descriptor itself and returns the owning box with the
  payload address.
\<close>

definition allocBox :: "TypeDescriptor \<Rightarrow> Runtime \<Rightarrow> (RuntimeValue \<times> RuntimeValue) \<times> Runtime" where
  "allocBox d rt =
     (let (h, rt1) = allocCell d rt
      in ((BoxVal h, PointerVal (HeapBlock h) 0), rt1))"

text \<open>
  Modelled from the spec: the fits predicate of the buffer entry points is missing. A
  value fits the fixed buffer when its size is at most the capacity and the buffer's
  alignment satisfies its alignment (\<open>alignmentMask + 1\<close>).
\<close>

definition fitsInline :: "IRGenModule \<Rightarrow> TypeDescriptor \<Rightarrow> bool" where
  "fitsInline M d =
     (unat (sizeField d) \<le> FixedBufferSize M
      \<and> (unat (alignmentMaskField d) + 1) dvd FixedBufferAlignment M)"

text \<open>
  Modelled from the spec: the buffer-allocation entry point is missing. If the value
  fits, the payload address is the region's; if not, it allocates a heap cell, stores
  a pointer to that cell inside the region and returns the heap cell's address.
\<close>

definition allocateBuffer ::
    "IRGenModule \<Rightarrow> TypeDescriptor \<Rightarrow> nat \<Rightarrow> Runtime \<Rightarrow> RuntimeValue \<times> Runtime" where
  "allocateBuffer M d b rt =
     (if fitsInline M d then (PointerVal (StackBlock b) 0, rt)
      else
        (let (h, rt1) = allocCell d rt
         in (PointerVal (HeapBlock h) 0,
             rt1\<lparr>Memory := (Memory rt1)((StackBlock b, 0) \<mapsto> PointerVal (HeapBlock h) 0)\<rparr>)))"

text \<open>
  Modelled from the spec: the release of a heap cell is missing. Freeing anything but
  the start of a live heap cell is an error.
\<close>

fun freeCell :: "Runtime \<Rightarrow> RuntimeValue option \<Rightarrow> RuntimeError + Runtime" where
  "freeCell rt (Some (PointerVal (HeapBlock h) off)) =
     (if off = 0 \<and> h < length (Heap rt) \<and> cellLive (Heap rt ! h)
      then Inr (rt\<lparr>Heap := (Heap rt)[h := (Heap rt ! h)\<lparr>cellLive := False\<rparr>]\<rparr>)
      else Inl InvalidFree)"
| "freeCell rt x = Inl InvalidFree"

text \<open>
  Modelled from the spec: the buffer-deallocation entry point is missing. It
  recomputes the same predicate from the descriptor; if the value was stored inline
  it does nothing to the region, and if not it frees the heap cell whose pointer the
  region holds.
\<close>

definition deallocateBuffer ::
    "IRGenModule \<Rightarrow> TypeDescriptor \<Rightarrow> nat \<Rightarrow> Runtime \<Rightarrow> RuntimeError + Runtime" where
  "deallocateBuffer M d b rt =
     (if fitsInline M d then Inr rt else freeCell rt (Memory rt (StackBlock b, 0)))"

text \<open>
  Modelled from the spec: the meaning of the emitted instructions is missing. A stack
  allocation makes a new region, a bit-cast copies its operand, the metadata
  reference yields the handle of T, the descriptor fetch and the loads read the
  descriptor the runtime has for that handle at that moment, and the three calls
  enter the entry points above.
\<close>

fun exec1 :: "IRGenModule \<Rightarrow> Instruction \<Rightarrow> Runtime \<Rightarrow> RuntimeError + Runtime" where
  "exec1 M (Alloca r ty align name) rt =
     (case sizeOfType ty of
        None \<Rightarrow> Inl UnsizedAlloca
      | Some n \<Rightarrow>
          Inr (setRegister r (PointerVal (StackBlock (length (Stack rt))) 0)
                 (rt\<lparr>Stack := Stack rt @ [\<lparr>regionSize = n, regionAlignment = align\<rparr>]\<rparr>)))"
| "exec1 M (BitCast r v ty) rt =
     (case Registers rt v of
        None \<Rightarrow> Inl UndefinedValue
      | Some x \<Rightarrow> Inr (setRegister r x rt))"
| "exec1 M (TypeMetadataRef r T) rt = Inr (setRegister r (MetadataVal T) rt)"
| "exec1 M (ValueWitnessTableRef r metadata) rt =
     (case asMetadata (Registers rt metadata) of
        Inl e \<Rightarrow> Inl e
      | Inr T \<Rightarrow> Inr (setRegister r (WitnessTableVal T) rt))"
| "exec1 M (LoadWitness r f wtable) rt =
     (case asWitnessTable (Registers rt wtable) of
        Inl e \<Rightarrow> Inl e
      | Inr T \<Rightarrow> Inr (setRegister r (witnessValue f (Descriptors rt T)) rt))"
| "exec1 M (AllocBoxCall box address metadata) rt =
     (case asMetadata (Registers rt metadata) of
        Inl e \<Rightarrow> Inl e
      | Inr T \<Rightarrow>
          (let ((bv, av), rt1) = allocBox (Descriptors rt T) rt
           in Inr (setRegister address av (setRegister box bv rt1))))"
| "exec1 M (AllocateBufferCall r metadata buffer) rt =
     (case asMetadata (Registers rt metadata) of
        Inl e \<Rightarrow> Inl e
      | Inr T \<Rightarrow>
          (case asFixedBuffer M rt (Registers rt buffer) of
             Inl e \<Rightarrow> Inl e
           | Inr b \<Rightarrow>
               (let (p, rt1) = allocateBuffer M (Descriptors rt T) b rt
                in Inr (setRegister r p rt1))))"
| "exec1 M (DeallocateBufferCall metadata buffer) rt =
     (case asMetadata (Registers rt metadata) of
        Inl e \<Rightarrow> Inl e
      | Inr T \<Rightarrow>
          (case asFixedBuffer M rt (Registers rt buffer) of
             Inl e \<Rightarrow> Inl e
           | Inr b \<Rightarrow> deallocateBuffer M (Descriptors rt T) b rt))"

text \<open>A straight-line sequence of instructions stops at the first error.\<close>

fun run :: "IRGenModule \<Rightarrow> Instruction list \<Rightarrow> Runtime \<Rightarrow> RuntimeError + Runtime" where
  "run M [] rt = Inr rt"
| "run M (i # is) rt =
     (case exec1 M i rt of
        Inl e \<Rightarrow> Inl e
      | Inr rt' \<Rightarrow> run M is rt')"

text \<open>The instructions an operation added to the function.\<close>

definition emitted :: "IRGenFunction \<Rightarrow> IRGenFunction \<Rightarrow> Instruction list" where
  "emitted IGF IGF' = drop (length (Builder IGF)) (Builder IGF')"

text \<open>
  The payload of size \<open>sz\<close> at address \<open>p\<close> lies inside the stack region \<open>b\<close> of
  capacity \<open>C\<close>.
\<close>

fun insideRegion :: "nat \<Rightarrow> nat \<Rightarrow> nat \<Rightarrow> RuntimeValue \<Rightarrow> bool" where
  "insideRegion b C sz (PointerVal (StackBlock b') off) = (b' = b \<and> off + sz \<le> C)"
| "insideRegion b C sz x = False"

text \<open>
  What separates two run-time states apart from the registers: the descriptors, the
  stack, the heap and the contents of memory.
\<close>

definition unchangedMemory :: "Runtime \<Rightarrow> Runtime \<Rightarrow> bool" where
  "unchangedMemory rt rt' =
     (Descriptors rt' = Descriptors rt \<and> Stack rt' = Stack rt \<and> Heap rt' = Heap rt
      \<and> Memory rt' = Memory rt)"

text \<open>A descriptor fetch is the instruction that produces the value witness table.\<close>

definition isDescriptorFetch :: "Instruction \<Rightarrow> bool" where
  "isDescriptorFetch i = (case i of ValueWitnessTableRef r m \<Rightarrow> True | _ \<Rightarrow> False)"

text \<open>The value a register holds once the code has run; none if the code fails.\<close>

definition valueAfter ::
    "IRGenModule \<Rightarrow> Instruction list \<Rightarrow> Runtime \<Rightarrow> llvm_Value \<Rightarrow> RuntimeValue option" where
  "valueAfter M code rt v = (case run M code rt of Inl e \<Rightarrow> None | Inr rt' \<Rightarrow> Registers rt' v)"

section \<open>A target, a type and three descriptors to run the generated code on\<close>

text \<open>
  A fixed buffer of three 8-byte words; a type of 12 bytes that fits it and one of
  40 bytes that does not.
\<close>

definition exampleModule :: IRGenModule where
  "exampleModule = \<lparr>FixedBufferSize = 24, FixedBufferAlignment = 8\<rparr>"

definition exampleTypeInfo :: TypeInfo where
  "exampleTypeInfo = WitnessSizedTypeInfo (OpaqueTy ''T'') 1 False True"

definition exampleFunction :: IRGenFunction where
  "exampleFunction = \<lparr>IGM = exampleModule, Builder = [], NextValue = 0\<rparr>"

definition inlineDescriptor :: TypeDescriptor where
  "inlineDescriptor = \<lparr>sizeField = 12, alignmentMaskField = 7, strideField = 16,
                        isStoredInline = True\<rparr>"

definition spilledDescriptor :: TypeDescriptor where
  "spilledDescriptor = \<lparr>sizeField = 40, alignmentMaskField = 7, strideField = 40,
                         isStoredInline = False\<rparr>"


definition exampleRuntime :: "TypeDescriptor \<Rightarrow> Runtime" where
  "exampleRuntime d = \<lparr>Descriptors = (\<lambda>T. d), Registers = Map.empty, Stack = [], Heap = [],
                        Memory = Map.empty\<rparr>"

section \<open>Properties of the compile-time operations\<close>

text \<open>
  C10. For the witness-queried implementation \<^verbatim>\<open>isFixed()\<close> is false. It is a static
  member function without arguments, so there is no type and no context it could
  depend on.
\<close>

theorem isFixed_false: "\<not> isFixed"
  by (simp add: isFixed_def)

text \<open>
  C5. Whatever the type info object and the module, \<^verbatim>\<open>getStaticSize\<close>,
  \<^verbatim>\<open>getStaticAlignmentMask\<close> and \<^verbatim>\<open>getStaticStride\<close> return no constant. None of
  them takes T, so the answer cannot depend on the run-time size of T.
\<close>

theorem getStatic_unknown:
  "getStaticSize this M = None \<and> getStaticAlignmentMask this M = None \<and> getStaticStride this M = None"
  by (simp add: getStaticSize_def getStaticAlignmentMask_def getStaticStride_def)

text \<open>
  C3. A witness-queried type reports no extra inhabitants, and both extra-inhabitant
  operations end on the fatal path for every argument: neither ever returns a value
  or a changed function.
\<close>

theorem extraInhabitants_fatal:
  "mayHaveExtraInhabitants this M = False
   \<and> getExtraInhabitantIndex this IGF src T = Inl (Unreachable ''dynamic extra inhabitants not supported'')
   \<and> storeExtraInhabitant this IGF index dest T = Inl (Unreachable ''dynamic extra inhabitants not supported'')"
  by (simp add: mayHaveExtraInhabitants_def getExtraInhabitantIndex_def storeExtraInhabitant_def
      llvm_unreachable_def)

section \<open>The code each operation emits\<close>

lemmas emit_defs = emit_def CreateBitCast_def createAlloca_def emitTypeMetadataRef_def
  emitValueWitnessTableRefForMetadata_def emitLoadOfSize_def emitLoadOfAlignmentMask_def
  emitLoadOfStride_def emitLoadOfIsInline_def emitAllocBoxCall_def emitAllocateBufferCall_def
  emitDeallocateBufferCall_def getAsBitCastAddress_def getAddressForPointer_def
  getStorageType_def getPointerTo_def getValueWitnessTable_def

lemmas runtime_defs = setRegister_def allocCell_def allocBox_def allocateBuffer_def
  deallocateBuffer_def getFixedBufferTy_def getFixedBufferAlignment_def

lemma allocateStack_code:
  "allocateStack this IGF T name =
     (\<lparr>getContainer = \<lparr>getAddress = SSA (NextValue IGF),
                        getAlignment = getFixedBufferAlignment (IGM IGF)\<rparr>,
       getContained = \<lparr>getAddress = SSA (NextValue IGF + 3),
                        getAlignment = StorageAlignment this\<rparr>\<rparr>,
      IGF\<lparr>Builder := Builder IGF @
             [Alloca (SSA (NextValue IGF)) (getFixedBufferTy (IGM IGF))
                (getFixedBufferAlignment (IGM IGF)) name,
              TypeMetadataRef (SSA (NextValue IGF + 1)) T,
              AllocateBufferCall (SSA (NextValue IGF + 2)) (SSA (NextValue IGF + 1))
                (SSA (NextValue IGF)),
              BitCast (SSA (NextValue IGF + 3)) (SSA (NextValue IGF + 2))
                (PointerTo (StorageType this))],
          NextValue := NextValue IGF + 4\<rparr>)"
  by (simp add: allocateStack_def emit_defs Let_def)

lemma deallocateStack_code:
  "deallocateStack this IGF buffer T =
     IGF\<lparr>Builder := Builder IGF @
            [TypeMetadataRef (SSA (NextValue IGF)) T,
             DeallocateBufferCall (SSA (NextValue IGF)) (getAddress buffer)],
         NextValue := NextValue IGF + 1\<rparr>"
  by (simp add: deallocateStack_def emit_defs Let_def)

lemma emitted_append: "emitted IGF (IGF\<lparr>Builder := Builder IGF @ xs, NextValue := n\<rparr>) = xs"
  by (simp add: emitted_def)

lemma allocateBox_code:
  "allocateBox this IGF T name =
     (\<lparr>getOwnedAddr = \<lparr>getAddress = SSA (NextValue IGF + 3),
                        getAlignment = StorageAlignment this\<rparr>,
       getOwner = SSA (NextValue IGF + 1)\<rparr>,
      IGF\<lparr>Builder := Builder IGF @
             [TypeMetadataRef (SSA (NextValue IGF)) T,
              AllocBoxCall (SSA (NextValue IGF + 1)) (SSA (NextValue IGF + 2)) (SSA (NextValue IGF)),
              BitCast (SSA (NextValue IGF + 3)) (SSA (NextValue IGF + 2))
                (PointerTo (StorageType this))],
          NextValue := NextValue IGF + 4\<rparr>)"
  by (simp add: allocateBox_def emit_defs Let_def)

lemma getValueWitnessTable_code:
  "getValueWitnessTable this IGF T =
     (SSA (NextValue IGF + 1),
      IGF\<lparr>Builder := Builder IGF @
             [TypeMetadataRef (SSA (NextValue IGF)) T,
              ValueWitnessTableRef (SSA (NextValue IGF + 1)) (SSA (NextValue IGF))],
          NextValue := NextValue IGF + 2\<rparr>)"
  by (simp add: emit_defs Let_def)

lemma getSize_code:
  "getSize this IGF T =
     (SSA (NextValue IGF + 2),
      IGF\<lparr>Builder := Builder IGF @
             [TypeMetadataRef (SSA (NextValue IGF)) T,
              ValueWitnessTableRef (SSA (NextValue IGF + 1)) (SSA (NextValue IGF)),
              LoadWitness (SSA (NextValue IGF + 2)) SizeWitness (SSA (NextValue IGF + 1))],
          NextValue := NextValue IGF + 3\<rparr>)"
  by (simp add: getSize_def emit_defs Let_def)

lemma getAlignmentMask_code:
  "getAlignmentMask this IGF T =
     (SSA (NextValue IGF + 2),
      IGF\<lparr>Builder := Builder IGF @
             [TypeMetadataRef (SSA (NextValue IGF)) T,
              ValueWitnessTableRef (SSA (NextValue IGF + 1)) (SSA (NextValue IGF)),
              LoadWitness (SSA (NextValue IGF + 2)) AlignmentMaskWitness (SSA (NextValue IGF + 1))],
          NextValue := NextValue IGF + 3\<rparr>)"
  by (simp add: getAlignmentMask_def emit_defs Let_def)

lemma getStride_code:
  "getStride this IGF T =
     (SSA (NextValue IGF + 2),
      IGF\<lparr>Builder := Builder IGF @
             [TypeMetadataRef (SSA (NextValue IGF)) T,
              ValueWitnessTableRef (SSA (NextValue IGF + 1)) (SSA (NextValue IGF)),
              LoadWitness (SSA (NextValue IGF + 2)) StrideWitness (SSA (NextValue IGF + 1))],
          NextValue := NextValue IGF + 3\<rparr>)"
  by (simp add: getStride_def emit_defs Let_def)

lemma getSizeAndAlignmentMask_code:
  "getSizeAndAlignmentMask this IGF T =
     ((SSA (NextValue IGF + 2), SSA (NextValue IGF + 3)),
      IGF\<lparr>Builder := Builder IGF @
             [TypeMetadataRef (SSA (NextValue IGF)) T,
              ValueWitnessTableRef (SSA (NextValue IGF + 1)) (SSA (NextValue IGF)),
              LoadWitness (SSA (NextValue IGF + 2)) SizeWitness (SSA (NextValue IGF + 1)),
              LoadWitness (SSA (NextValue IGF + 3)) AlignmentMaskWitness (SSA (NextValue IGF + 1))],
          NextValue := NextValue IGF + 4\<rparr>)"
  by (simp add: getSizeAndAlignmentMask_def emit_defs Let_def)

lemma getSizeAndAlignmentMaskAndStride_code:
  "getSizeAndAlignmentMaskAndStride this IGF T =
     ((SSA (NextValue IGF + 2), SSA (NextValue IGF + 3), SSA (NextValue IGF + 4)),
      IGF\<lparr>Builder := Builder IGF @
             [TypeMetadataRef (SSA (NextValue IGF)) T,
              ValueWitnessTableRef (SSA (NextValue IGF + 1)) (SSA (NextValue IGF)),
              LoadWitness (SSA (NextValue IGF + 2)) SizeWitness (SSA (NextValue IGF + 1)),
              LoadWitness (SSA (NextValue IGF + 3)) AlignmentMaskWitness (SSA (NextValue IGF + 1)),
              LoadWitness (SSA (NextValue IGF + 4)) StrideWitness (SSA (NextValue IGF + 1))],
          NextValue := NextValue IGF + 5\<rparr>)"
  by (simp add: getSizeAndAlignmentMaskAndStride_def emit_defs Let_def)

lemmas example_defs = exampleModule_def exampleTypeInfo_def WitnessSizedTypeInfo_def exampleFunction_def
  inlineDescriptor_def spilledDescriptor_def exampleRuntime_def

section \<open>Running the emitted code\<close>

lemma run_allocateStack:
  "run (IGM IGF) (emitted IGF (snd (allocateStack this IGF T name))) rt =
     Inr (let b = length (Stack rt);
              rt1 = rt\<lparr>Stack := Stack rt @ [\<lparr>regionSize = FixedBufferSize (IGM IGF),
                                             regionAlignment = FixedBufferAlignment (IGM IGF)\<rparr>]\<rparr>;
              (p, rt2) = allocateBuffer (IGM IGF) (Descriptors rt T) b rt1
          in rt2\<lparr>Registers := (Registers rt)
                  (SSA (NextValue IGF) \<mapsto> PointerVal (StackBlock b) 0,
                   SSA (NextValue IGF + 1) \<mapsto> MetadataVal T,
                   SSA (NextValue IGF + 2) \<mapsto> p,
                   SSA (NextValue IGF + 3) \<mapsto> p)\<rparr>)"
  by (simp add: allocateStack_code emitted_append runtime_defs Let_def nth_append)

lemma run_query:
  "run M [TypeMetadataRef (SSA n) T, ValueWitnessTableRef (SSA (n + 1)) (SSA n),
          LoadWitness (SSA (n + 2)) f (SSA (n + 1))] rt =
     Inr (rt\<lparr>Registers := (Registers rt)
            (SSA n \<mapsto> MetadataVal T, SSA (n + 1) \<mapsto> WitnessTableVal T,
             SSA (n + 2) \<mapsto> witnessValue f (Descriptors rt T))\<rparr>)"
  by (simp add: setRegister_def)

lemma run_query2:
  "run M [TypeMetadataRef (SSA n) T, ValueWitnessTableRef (SSA (n + 1)) (SSA n),
          LoadWitness (SSA (n + 2)) SizeWitness (SSA (n + 1)),
          LoadWitness (SSA (n + 3)) AlignmentMaskWitness (SSA (n + 1))] rt =
     Inr (rt\<lparr>Registers := (Registers rt)
            (SSA n \<mapsto> MetadataVal T, SSA (n + 1) \<mapsto> WitnessTableVal T,
             SSA (n + 2) \<mapsto> WordVal (sizeField (Descriptors rt T)),
             SSA (n + 3) \<mapsto> WordVal (alignmentMaskField (Descriptors rt T)))\<rparr>)"
  by (simp add: setRegister_def)

lemma run_query3:
  "run M [TypeMetadataRef (SSA n) T, ValueWitnessTableRef (SSA (n + 1)) (SSA n),
          LoadWitness (SSA (n + 2)) SizeWitness (SSA (n + 1)),
          LoadWitness (SSA (n + 3)) AlignmentMaskWitness (SSA (n + 1)),
          LoadWitness (SSA (n + 4)) StrideWitness (SSA (n + 1))] rt =
     Inr (rt\<lparr>Registers := (Registers rt)
            (SSA n \<mapsto> MetadataVal T, SSA (n + 1) \<mapsto> WitnessTableVal T,
             SSA (n + 2) \<mapsto> WordVal (sizeField (Descriptors rt T)),
             SSA (n + 3) \<mapsto> WordVal (alignmentMaskField (Descriptors rt T)),
             SSA (n + 4) \<mapsto> WordVal (strideField (Descriptors rt T)))\<rparr>)"
  by (simp add: setRegister_def)

lemma run_allocateBox:
  "run M (emitted IGF (snd (allocateBox this IGF T name))) rt =
     Inr (rt\<lparr>Heap := Heap rt @ [\<lparr>cellSize = sizeField (Descriptors rt T),
                                  cellAlignmentMask = alignmentMaskField (Descriptors rt T),
                                  cellLive = True\<rparr>],
             Registers := (Registers rt)
               (SSA (NextValue IGF) \<mapsto> MetadataVal T,
                SSA (NextValue IGF + 1) \<mapsto> BoxVal (length (Heap rt)),
                SSA (NextValue IGF + 2) \<mapsto> PointerVal (HeapBlock (length (Heap rt))) 0,
                SSA (NextValue IGF + 3) \<mapsto> PointerVal (HeapBlock (length (Heap rt))) 0)\<rparr>)"
  by (simp add: allocateBox_code emitted_append runtime_defs Let_def)

section \<open>Layout queries\<close>

text \<open>
  C4. Each of \<^verbatim>\<open>getSize\<close>, \<^verbatim>\<open>getAlignmentMask\<close> and \<^verbatim>\<open>getStride\<close> emits a reference to
  the metadata of T, the fetch of its value witness table and one load from that
  table, and returns the loaded value. Run in any state, the code succeeds, leaves
  descriptors, stack, heap and memory as they were, and the returned value is the
  field the descriptor of T has in that state: nothing is fixed at compile time.
\<close>

theorem layout_queries_read_descriptor:
  "emitted IGF (snd (getSize this IGF T)) =
     [TypeMetadataRef (SSA (NextValue IGF)) T,
      ValueWitnessTableRef (SSA (NextValue IGF + 1)) (SSA (NextValue IGF)),
      LoadWitness (fst (getSize this IGF T)) SizeWitness (SSA (NextValue IGF + 1))]
   \<and> emitted IGF (snd (getAlignmentMask this IGF T)) =
     [TypeMetadataRef (SSA (NextValue IGF)) T,
      ValueWitnessTableRef (SSA (NextValue IGF + 1)) (SSA (NextValue IGF)),
      LoadWitness (fst (getAlignmentMask this IGF T)) AlignmentMaskWitness (SSA (NextValue IGF + 1))]
   \<and> emitted IGF (snd (getStride this IGF T)) =
     [TypeMetadataRef (SSA (NextValue IGF)) T,
      ValueWitnessTableRef (SSA (NextValue IGF + 1)) (SSA (NextValue IGF)),
      LoadWitness (fst (getStride this IGF T)) StrideWitness (SSA (NextValue IGF + 1))]
   \<and> (\<exists>rt'. run M (emitted IGF (snd (getSize this IGF T))) rt = Inr rt'
         \<and> unchangedMemory rt rt'
         \<and> Registers rt' (fst (getSize this IGF T)) = Some (WordVal (sizeField (Descriptors rt T))))
   \<and> (\<exists>rt'. run M (emitted IGF (snd (getAlignmentMask this IGF T))) rt = Inr rt'
         \<and> unchangedMemory rt rt'
         \<and> Registers rt' (fst (getAlignmentMask this IGF T)) =
             Some (WordVal (alignmentMaskField (Descriptors rt T))))
   \<and> (\<exists>rt'. run M (emitted IGF (snd (getStride this IGF T))) rt = Inr rt'
         \<and> unchangedMemory rt rt'
         \<and> Registers rt' (fst (getStride this IGF T)) = Some (WordVal (strideField (Descriptors rt T))))"
  unfolding getSize_code getAlignmentMask_code getStride_code snd_conv fst_conv emitted_append run_query
  by (simp add: unchangedMemory_def)

text \<open>
  C6. Started from the same function state, the batched queries yield the values the
  single queries yield (which exist), their code holds exactly one descriptor
  fetch, and running it changes nothing but registers.
\<close>

theorem batched_queries_agree:
  "(let ((sz, align), IGF2) = getSizeAndAlignmentMask this IGF T;
        ((sz3, align3, strd3), IGF3) = getSizeAndAlignmentMaskAndStride this IGF T;
        (s, IGFs) = getSize this IGF T;
        (a, IGFa) = getAlignmentMask this IGF T;
        (st, IGFst) = getStride this IGF T;
        single = (\<lambda>I v. valueAfter M (emitted IGF I) rt v)
    in single IGFs s \<noteq> None \<and> single IGFa a \<noteq> None \<and> single IGFst st \<noteq> None
     \<and> single IGF2 sz = single IGFs s
     \<and> single IGF2 align = single IGFa a
     \<and> single IGF3 sz3 = single IGFs s
     \<and> single IGF3 align3 = single IGFa a
     \<and> single IGF3 strd3 = single IGFst st
     \<and> length (filter isDescriptorFetch (emitted IGF IGF2)) = 1
     \<and> length (filter isDescriptorFetch (emitted IGF IGF3)) = 1
     \<and> (\<exists>rt2. run M (emitted IGF IGF2) rt = Inr rt2 \<and> unchangedMemory rt rt2)
     \<and> (\<exists>rt3. run M (emitted IGF IGF3) rt = Inr rt3 \<and> unchangedMemory rt rt3))"
  unfolding getSize_code getAlignmentMask_code getStride_code getSizeAndAlignmentMask_code
    getSizeAndAlignmentMaskAndStride_code Let_def prod.case emitted_append valueAfter_def
    run_query run_query2 run_query3
  by (simp add: unchangedMemory_def isDescriptorFetch_def)

section \<open>The stride invariant\<close>



section \<open>Box allocation\<close>

text \<open>
  C8. \<^verbatim>\<open>allocateBox\<close> emits the metadata reference for T, the call of the
  box-allocation entry point on that metadata alone, and the bit-cast of the payload
  address to a pointer to the storage type; no size or alignment is loaded
  beforehand. It returns the cast address, with the storage alignment, paired with
  the box. At run time the entry point makes one heap cell with the size and
  alignment of T's descriptor; the box owns that cell and the payload address is
  its start.
\<close>

theorem allocateBox_calls_entry_point:
  "(let (OA, IGF1) = allocateBox this IGF T name;
        metadata = SSA (NextValue IGF);
        address = SSA (NextValue IGF + 2)
    in emitted IGF IGF1 =
         [TypeMetadataRef metadata T,
          AllocBoxCall (getOwner OA) address metadata,
          BitCast (getAddress (getOwnedAddr OA)) address (PointerTo (StorageType this))]
     \<and> getAlignment (getOwnedAddr OA) = StorageAlignment this
     \<and> (\<exists>rt1. run M (emitted IGF IGF1) rt = Inr rt1
          \<and> Registers rt1 (getOwner OA) = Some (BoxVal (length (Heap rt)))
          \<and> Registers rt1 (getAddress (getOwnedAddr OA)) =
              Some (PointerVal (HeapBlock (length (Heap rt))) 0)
          \<and> Heap rt1 = Heap rt @ [\<lparr>cellSize = sizeField (Descriptors rt T),
                                    cellAlignmentMask = alignmentMaskField (Descriptors rt T),
                                    cellLive = True\<rparr>]
          \<and> Stack rt1 = Stack rt \<and> Memory rt1 = Memory rt))"
proof -
  have r: "run M (emitted IGF (snd (allocateBox this IGF T name))) rt = Inr
     (rt\<lparr>Heap := Heap rt @ [\<lparr>cellSize = sizeField (Descriptors rt T),
                                  cellAlignmentMask = alignmentMaskField (Descriptors rt T),
                                  cellLive = True\<rparr>],
             Registers := (Registers rt)
               (SSA (NextValue IGF) \<mapsto> MetadataVal T,
                SSA (NextValue IGF + 1) \<mapsto> BoxVal (length (Heap rt)),
                SSA (NextValue IGF + 2) \<mapsto> PointerVal (HeapBlock (length (Heap rt))) 0,
                SSA (NextValue IGF + 3) \<mapsto> PointerVal (HeapBlock (length (Heap rt))) 0)\<rparr>)"
    by (rule run_allocateBox)
  show ?thesis
    using r by (simp add: allocateBox_code emitted_append)
qed

section \<open>Buffer allocation\<close>

text \<open>
  C2, as stated, has \<^verbatim>\<open>allocateStack\<close> take the region from its caller. It takes none:
  its arguments are the function under construction, T and a name. Handed a function
  that holds no instruction at all, it returns as the buffer the value defined by the
  stack allocation it has itself emitted first.
\<close>

theorem allocateStack_region_counterexample:
  "Builder exampleFunction = []
   \<and> getContainer (fst (allocateStack exampleTypeInfo exampleFunction (CanType 0) ''x''))
       = \<lparr>getAddress = SSA 0, getAlignment = 8\<rparr>
   \<and> hd (Builder (snd (allocateStack exampleTypeInfo exampleFunction (CanType 0) ''x'')))
       = Alloca (SSA 0) (Int8ArrayTy 24) 8 ''x''"
  by (simp add: allocateStack_code example_defs getFixedBufferTy_def getFixedBufferAlignment_def)

text \<open>
  C2, amended. \<^verbatim>\<open>allocateStack\<close> itself makes the fixed buffer, as a stack allocation
  in the function under construction, with the type and alignment the module gives
  for every fixed buffer: the allocation is the same instruction for any other type
  \<open>T'\<close> and type info. It then emits the metadata reference for T and the call of the
  buffer-allocation entry point with that metadata and the address of the region,
  and returns the region with the bit-cast result of the call. At run time the
  region has the module's capacity and alignment.
\<close>

theorem allocateStack_uses_fixed_buffer:
  "(let (CA, IGF1) = allocateStack this IGF T name;
        buffer = getContainer CA;
        metadata = SSA (NextValue IGF + 1);
        address = SSA (NextValue IGF + 2)
    in emitted IGF IGF1 =
         [Alloca (getAddress buffer) (getFixedBufferTy (IGM IGF))
            (getFixedBufferAlignment (IGM IGF)) name,
          TypeMetadataRef metadata T,
          AllocateBufferCall address metadata (getAddress buffer),
          BitCast (getAddress (getContained CA)) address (PointerTo (StorageType this))]
     \<and> getAlignment buffer = getFixedBufferAlignment (IGM IGF)
     \<and> hd (emitted IGF (snd (allocateStack this' IGF T' name))) = hd (emitted IGF IGF1)
     \<and> (\<exists>rt1. run (IGM IGF) (emitted IGF IGF1) rt = Inr rt1
          \<and> Stack rt1 = Stack rt @ [\<lparr>regionSize = FixedBufferSize (IGM IGF),
                                      regionAlignment = FixedBufferAlignment (IGM IGF)\<rparr>]
          \<and> Registers rt1 (getAddress buffer) = Some (PointerVal (StackBlock (length (Stack rt))) 0)))"
proof -
  have r: "\<exists>rt1. run (IGM IGF) (emitted IGF (snd (allocateStack this IGF T name))) rt = Inr rt1
          \<and> Stack rt1 = Stack rt @ [\<lparr>regionSize = FixedBufferSize (IGM IGF),
                                      regionAlignment = FixedBufferAlignment (IGM IGF)\<rparr>]
          \<and> Registers rt1 (SSA (NextValue IGF)) = Some (PointerVal (StackBlock (length (Stack rt))) 0)"
    unfolding run_allocateStack
    by (simp add: runtime_defs Let_def split: prod.splits if_splits)
  show ?thesis
    using r by (simp add: allocateStack_code emitted_append)
qed

text \<open>
  C1. Run the code of \<^verbatim>\<open>allocateStack\<close> for T on a region of capacity C. If the size
  of T is at most C and the region's alignment satisfies T's, the payload lies
  inside the region and no heap cell is made. If the size exceeds C, the payload
  does not lie inside the region: it is the start of a fresh live heap cell of T's
  size, and the region holds the pointer to it. In every case \<^verbatim>\<open>deallocateStack\<close> for
  the same region and T emits one and the same code, the metadata reference for T
  and the call of the buffer-deallocation entry point on the region; that code then
  runs without error, leaves stack and memory as they are, and releases what the
  allocation made: nothing in the first case, the spilled cell, and only it, in the
  second.
\<close>

theorem allocateStack_spill_transparency:
  assumes alloc: "allocateStack this IGF T name = (CA, IGF1)"
    and dealloc: "deallocateStack this IGF1 (getContainer CA) T = IGF2"
  shows "\<exists>rt1 rt2 p.
      run (IGM IGF) (emitted IGF IGF1) rt = Inr rt1
    \<and> Registers rt1 (getAddress (getContainer CA)) = Some (PointerVal (StackBlock (length (Stack rt))) 0)
    \<and> regionSize (Stack rt1 ! length (Stack rt)) = FixedBufferSize (IGM IGF)
    \<and> Registers rt1 (getAddress (getContained CA)) = Some p
    \<and> emitted IGF1 IGF2 =
         [TypeMetadataRef (SSA (NextValue IGF1)) T,
          DeallocateBufferCall (SSA (NextValue IGF1)) (getAddress (getContainer CA))]
    \<and> run (IGM IGF) (emitted IGF1 IGF2) rt1 = Inr rt2
    \<and> Stack rt2 = Stack rt1 \<and> Memory rt2 = Memory rt1
    \<and> (fitsInline (IGM IGF) (Descriptors rt T) \<longrightarrow>
         insideRegion (length (Stack rt)) (FixedBufferSize (IGM IGF))
           (unat (sizeField (Descriptors rt T))) p
         \<and> Heap rt1 = Heap rt \<and> Heap rt2 = Heap rt)
    \<and> (FixedBufferSize (IGM IGF) < unat (sizeField (Descriptors rt T)) \<longrightarrow>
         \<not> insideRegion (length (Stack rt)) (FixedBufferSize (IGM IGF))
             (unat (sizeField (Descriptors rt T))) p
         \<and> (\<exists>h. p = PointerVal (HeapBlock h) 0 \<and> length (Heap rt) \<le> h \<and> h < length (Heap rt1)
                \<and> cellLive (Heap rt1 ! h) \<and> cellSize (Heap rt1 ! h) = sizeField (Descriptors rt T)
                \<and> Memory rt1 (StackBlock (length (Stack rt)), 0) = Some p
                \<and> Heap rt2 = (Heap rt1)[h := (Heap rt1 ! h)\<lparr>cellLive := False\<rparr>]
                \<and> \<not> cellLive (Heap rt2 ! h)))"
proof -
  have CA: "CA = fst (allocateStack this IGF T name)" and I1: "IGF1 = snd (allocateStack this IGF T name)"
    using alloc by simp_all
  have I2: "IGF2 = deallocateStack this IGF1 (getContainer CA) T"
    using dealloc by simp
  show ?thesis
  proof (cases "fitsInline (IGM IGF) (Descriptors rt T)")
    case True
    then show ?thesis
      unfolding I2 deallocateStack_code emitted_append
      unfolding CA I1 run_allocateStack
      by (simp add: allocateStack_code runtime_defs Let_def nth_append fitsInline_def)
  next
    case False
    then show ?thesis
      unfolding I2 deallocateStack_code emitted_append
      unfolding CA I1 run_allocateStack
      by (simp add: allocateStack_code runtime_defs Let_def nth_append fitsInline_def)
  qed
qed

text \<open>
  Both cases on a fixed buffer of 24 bytes aligned to 8: a type of 12 bytes is stored
  inside the region and the heap stays empty; a type of 40 bytes is stored in a heap
  cell, which is live after the allocation and freed after the deallocation.
\<close>

theorem allocateStack_spill_transparency_witness:
  "fitsInline (IGM exampleFunction) (Descriptors (exampleRuntime inlineDescriptor) (CanType 0))
   \<and> (\<exists>rt1 rt2 p.
        run (IGM exampleFunction)
          (emitted exampleFunction (snd (allocateStack exampleTypeInfo exampleFunction (CanType 0) ''x'')))
          (exampleRuntime inlineDescriptor) = Inr rt1
      \<and> Registers rt1 (getAddress (getContained
            (fst (allocateStack exampleTypeInfo exampleFunction (CanType 0) ''x'')))) = Some p
      \<and> insideRegion (length (Stack (exampleRuntime inlineDescriptor)))
          (FixedBufferSize (IGM exampleFunction))
          (unat (sizeField (Descriptors (exampleRuntime inlineDescriptor) (CanType 0)))) p
      \<and> run (IGM exampleFunction)
          (emitted (snd (allocateStack exampleTypeInfo exampleFunction (CanType 0) ''x''))
             (deallocateStack exampleTypeInfo
                (snd (allocateStack exampleTypeInfo exampleFunction (CanType 0) ''x''))
                (getContainer (fst (allocateStack exampleTypeInfo exampleFunction (CanType 0) ''x'')))
                (CanType 0))) rt1 = Inr rt2
      \<and> Heap rt2 = Heap (exampleRuntime inlineDescriptor))
   \<and> FixedBufferSize (IGM exampleFunction)
       < unat (sizeField (Descriptors (exampleRuntime spilledDescriptor) (CanType 0)))
   \<and> (\<exists>rt1 rt2 h.
        run (IGM exampleFunction)
          (emitted exampleFunction (snd (allocateStack exampleTypeInfo exampleFunction (CanType 0) ''x'')))
          (exampleRuntime spilledDescriptor) = Inr rt1
      \<and> Registers rt1 (getAddress (getContained
            (fst (allocateStack exampleTypeInfo exampleFunction (CanType 0) ''x''))))
          = Some (PointerVal (HeapBlock h) 0)
      \<and> Memory rt1 (StackBlock (length (Stack (exampleRuntime spilledDescriptor))), 0)
          = Some (PointerVal (HeapBlock h) 0)
      \<and> cellLive (Heap rt1 ! h)
      \<and> run (IGM exampleFunction)
          (emitted (snd (allocateStack exampleTypeInfo exampleFunction (CanType 0) ''x''))
             (deallocateStack exampleTypeInfo
                (snd (allocateStack exampleTypeInfo exampleFunction (CanType 0) ''x''))
                (getContainer (fst (allocateStack exampleTypeInfo exampleFunction (CanType 0) ''x'')))
                (CanType 0))) rt1 = Inr rt2
      \<and> \<not> cellLive (Heap rt2 ! h))"
proof -
  let ?A = "allocateStack exampleTypeInfo exampleFunction (CanType 0) ''x''"
  have a: "?A = (fst ?A, snd ?A)"
    by simp
  have fits: "fitsInline (IGM exampleFunction) (Descriptors (exampleRuntime inlineDescriptor) (CanType 0))"
    by (simp add: example_defs fitsInline_def)
  have large: "FixedBufferSize (IGM exampleFunction)
       < unat (sizeField (Descriptors (exampleRuntime spilledDescriptor) (CanType 0)))"
    by (simp add: example_defs)
  note small = allocateStack_spill_transparency [OF a refl, of "exampleRuntime inlineDescriptor"]
  note big = allocateStack_spill_transparency [OF a refl, of "exampleRuntime spilledDescriptor"]
  have 1: "\<exists>rt1 rt2 p.
        run (IGM exampleFunction) (emitted exampleFunction (snd ?A)) (exampleRuntime inlineDescriptor) = Inr rt1
      \<and> Registers rt1 (getAddress (getContained (fst ?A))) = Some p
      \<and> insideRegion (length (Stack (exampleRuntime inlineDescriptor)))
          (FixedBufferSize (IGM exampleFunction))
          (unat (sizeField (Descriptors (exampleRuntime inlineDescriptor) (CanType 0)))) p
      \<and> run (IGM exampleFunction)
          (emitted (snd ?A) (deallocateStack exampleTypeInfo (snd ?A) (getContainer (fst ?A)) (CanType 0)))
          rt1 = Inr rt2
      \<and> Heap rt2 = Heap (exampleRuntime inlineDescriptor)"
    using small fits by blast
  have 2: "\<exists>rt1 rt2 h.
        run (IGM exampleFunction) (emitted exampleFunction (snd ?A)) (exampleRuntime spilledDescriptor) = Inr rt1
      \<and> Registers rt1 (getAddress (getContained (fst ?A))) = Some (PointerVal (HeapBlock h) 0)
      \<and> Memory rt1 (StackBlock (length (Stack (exampleRuntime spilledDescriptor))), 0)
          = Some (PointerVal (HeapBlock h) 0)
      \<and> cellLive (Heap rt1 ! h)
      \<and> run (IGM exampleFunction)
          (emitted (snd ?A) (deallocateStack exampleTypeInfo (snd ?A) (getContainer (fst ?A)) (CanType 0)))
          rt1 = Inr rt2
      \<and> \<not> cellLive (Heap rt2 ! h)"
    using big large by blast
  from fits 1 large 2 show ?thesis
    by blast
qed

text \<open>
  C7. After an allocation, \<^verbatim>\<open>deallocateStack\<close> on the region and T of that allocation
  emits the metadata reference for T and the call of the buffer-deallocation entry
  point with that metadata and the region's address, and nothing else: no
  instruction of it reads the region. Run after the allocation, the call succeeds
  and leaves stack and memory as they are; if the value was stored inline the heap
  is as before the allocation, and if it was spilled the one cell the allocation
  made is freed.
\<close>

theorem deallocateStack_matches_allocation:
  assumes alloc: "allocateStack this IGF T name = (CA, IGF1)"
    and ran: "run (IGM IGF) (emitted IGF IGF1) rt = Inr rt1"
  shows "\<exists>metadata rt2.
       emitted IGF1 (deallocateStack this IGF1 (getContainer CA) T) =
         [TypeMetadataRef metadata T,
          DeallocateBufferCall metadata (getAddress (getContainer CA))]
     \<and> run (IGM IGF) (emitted IGF1 (deallocateStack this IGF1 (getContainer CA) T)) rt1 = Inr rt2
     \<and> Stack rt2 = Stack rt1 \<and> Memory rt2 = Memory rt1 \<and> Descriptors rt2 = Descriptors rt1
     \<and> (if fitsInline (IGM IGF) (Descriptors rt T)
         then Heap rt1 = Heap rt \<and> Heap rt2 = Heap rt1
         else Heap rt1 = Heap rt @ [\<lparr>cellSize = sizeField (Descriptors rt T),
                                      cellAlignmentMask = alignmentMaskField (Descriptors rt T),
                                      cellLive = True\<rparr>]
            \<and> Memory rt1 (StackBlock (length (Stack rt)), 0)
                = Some (PointerVal (HeapBlock (length (Heap rt))) 0)
            \<and> Heap rt2 = Heap rt @ [\<lparr>cellSize = sizeField (Descriptors rt T),
                                      cellAlignmentMask = alignmentMaskField (Descriptors rt T),
                                      cellLive = False\<rparr>])"
proof -
  have CA: "CA = fst (allocateStack this IGF T name)" and I1: "IGF1 = snd (allocateStack this IGF T name)"
    using alloc by simp_all
  have rt1: "Inr rt1 = run (IGM IGF) (emitted IGF (snd (allocateStack this IGF T name))) rt"
    using ran I1 by simp
  show ?thesis
  proof (cases "fitsInline (IGM IGF) (Descriptors rt T)")
    case True
    then show ?thesis
      using rt1 unfolding deallocateStack_code emitted_append run_allocateStack
      unfolding CA I1
      by (simp add: allocateStack_code runtime_defs Let_def nth_append fitsInline_def)
  next
    case False
    then show ?thesis
      using rt1 unfolding deallocateStack_code emitted_append run_allocateStack
      unfolding CA I1
      by (simp add: allocateStack_code runtime_defs Let_def nth_append fitsInline_def)
  qed
qed

text \<open>The spilled type of 40 bytes: the cell made by the allocation is freed.\<close>

theorem deallocateStack_matches_allocation_witness:
  "\<exists>rt1 metadata rt2.
       run (IGM exampleFunction)
         (emitted exampleFunction (snd (allocateStack exampleTypeInfo exampleFunction (CanType 0) ''x'')))
         (exampleRuntime spilledDescriptor) = Inr rt1
     \<and> emitted (snd (allocateStack exampleTypeInfo exampleFunction (CanType 0) ''x''))
         (deallocateStack exampleTypeInfo
            (snd (allocateStack exampleTypeInfo exampleFunction (CanType 0) ''x''))
            (getContainer (fst (allocateStack exampleTypeInfo exampleFunction (CanType 0) ''x'')))
            (CanType 0)) =
         [TypeMetadataRef metadata (CanType 0),
          DeallocateBufferCall metadata
            (getAddress (getContainer (fst (allocateStack exampleTypeInfo exampleFunction (CanType 0) ''x''))))]
     \<and> run (IGM exampleFunction)
         (emitted (snd (allocateStack exampleTypeInfo exampleFunction (CanType 0) ''x''))
            (deallocateStack exampleTypeInfo
               (snd (allocateStack exampleTypeInfo exampleFunction (CanType 0) ''x''))
               (getContainer (fst (allocateStack exampleTypeInfo exampleFunction (CanType 0) ''x'')))
               (CanType 0))) rt1 = Inr rt2
     \<and> Stack rt2 = Stack rt1 \<and> Memory rt2 = Memory rt1
     \<and> Heap rt1 = [\<lparr>cellSize = 40, cellAlignmentMask = 7, cellLive = True\<rparr>]
     \<and> Heap rt2 = [\<lparr>cellSize = 40, cellAlignmentMask = 7, cellLive = False\<rparr>]"
proof -
  let ?A = "allocateStack exampleTypeInfo exampleFunction (CanType 0) ''x''"
  have a: "?A = (fst ?A, snd ?A)"
    by simp
  have nofit: "\<not> fitsInline (IGM exampleFunction) (Descriptors (exampleRuntime spilledDescriptor) (CanType 0))"
    by (simp add: example_defs fitsInline_def)
  have d: "sizeField (Descriptors (exampleRuntime spilledDescriptor) (CanType 0)) = 40"
      "alignmentMaskField (Descriptors (exampleRuntime spilledDescriptor) (CanType 0)) = 7"
      "Heap (exampleRuntime spilledDescriptor) = []"
    by (simp_all add: example_defs)
  obtain rt1 where r: "run (IGM exampleFunction) (emitted exampleFunction (snd ?A))
      (exampleRuntime spilledDescriptor) = Inr rt1"
    unfolding run_allocateStack by blast
  from deallocateStack_matches_allocation [OF a r] nofit d r show ?thesis
    by auto
qed

end
